theory Spec2Isabelle
  imports Complex_Main "HOL-Library.Sublist" "HOL-Library.Log_Nat"
begin

section \<open>JavaScript numbers\<close>

text \<open>
  The analyzer computes with JavaScript numbers. Two of its expressions leave the finite
  numbers: \<^verbatim>\<open>Math.max(...[])\<close> is \<^verbatim>\<open>-Infinity\<close> and \<^verbatim>\<open>0 / 0\<close> is \<^verbatim>\<open>NaN\<close>. The model
  therefore keeps both infinities and \<^verbatim>\<open>NaN\<close> as values of their own, with the IEEE 754
  rules for them. A finite value is the exact rational it stands for, and the operations
  \<open>js_add\<close>, \<open>js_mul\<close> and \<open>js_div\<close> below are exact on finite values; the sign of zero
  is not modelled. Where the outcome of a function turns on the rounding of doubles, as
  the comparison in \<^verbatim>\<open>detectEscalation\<close> does, the function is modelled with the rounded
  operations of the section on double precision.
\<close>

datatype jsnum = Fin rat | PInf | NInf | NaN

fun js_neg :: "jsnum \<Rightarrow> jsnum" where
  "js_neg (Fin a) = Fin (- a)"
| "js_neg PInf = NInf"
| "js_neg NInf = PInf"
| "js_neg NaN = NaN"

text \<open>\<^verbatim>\<open>a + b\<close>\<close>

fun js_add :: "jsnum \<Rightarrow> jsnum \<Rightarrow> jsnum" where
  "js_add (Fin a) (Fin b) = Fin (a + b)"
| "js_add (Fin a) PInf = PInf"
| "js_add (Fin a) NInf = NInf"
| "js_add PInf (Fin b) = PInf"
| "js_add PInf PInf = PInf"
| "js_add PInf NInf = NaN"
| "js_add NInf (Fin b) = NInf"
| "js_add NInf NInf = NInf"
| "js_add NInf PInf = NaN"
| "js_add NaN b = NaN"
| "js_add a NaN = NaN"

text \<open>\<^verbatim>\<open>a - b\<close>\<close>

definition js_sub :: "jsnum \<Rightarrow> jsnum \<Rightarrow> jsnum" where
  "js_sub a b = js_add a (js_neg b)"

text \<open>An infinity times a finite number: \<^verbatim>\<open>NaN\<close> at zero, otherwise the sign rule.\<close>

definition inf_times :: "bool \<Rightarrow> rat \<Rightarrow> jsnum" where
  "inf_times positive a =
     (if a = 0 then NaN else if (0 < a) = positive then PInf else NInf)"

text \<open>\<^verbatim>\<open>a * b\<close>\<close>

fun js_mul :: "jsnum \<Rightarrow> jsnum \<Rightarrow> jsnum" where
  "js_mul (Fin a) (Fin b) = Fin (a * b)"
| "js_mul (Fin a) PInf = inf_times True a"
| "js_mul (Fin a) NInf = inf_times False a"
| "js_mul PInf (Fin b) = inf_times True b"
| "js_mul NInf (Fin b) = inf_times False b"
| "js_mul PInf PInf = PInf"
| "js_mul PInf NInf = NInf"
| "js_mul NInf PInf = NInf"
| "js_mul NInf NInf = PInf"
| "js_mul NaN b = NaN"
| "js_mul a NaN = NaN"

text \<open>
  \<^verbatim>\<open>a / b\<close>. Every divisor of the analyzer is a list length or the literal 3, so a zero
  divisor is the positive zero.
\<close>

fun js_div :: "jsnum \<Rightarrow> jsnum \<Rightarrow> jsnum" where
  "js_div (Fin a) (Fin b) =
     (if b = 0 then (if a = 0 then NaN else if 0 < a then PInf else NInf)
      else Fin (a / b))"
| "js_div (Fin a) PInf = Fin 0"
| "js_div (Fin a) NInf = Fin 0"
| "js_div PInf (Fin b) = (if 0 \<le> b then PInf else NInf)"
| "js_div NInf (Fin b) = (if 0 \<le> b then NInf else PInf)"
| "js_div PInf PInf = NaN"
| "js_div PInf NInf = NaN"
| "js_div NInf PInf = NaN"
| "js_div NInf NInf = NaN"
| "js_div NaN b = NaN"
| "js_div a NaN = NaN"

text \<open>\<^verbatim>\<open>a < b\<close>: false as soon as one side is \<^verbatim>\<open>NaN\<close>.\<close>

fun js_lt :: "jsnum \<Rightarrow> jsnum \<Rightarrow> bool" where
  "js_lt (Fin a) (Fin b) = (a < b)"
| "js_lt (Fin a) PInf = True"
| "js_lt (Fin a) NInf = False"
| "js_lt PInf b = False"
| "js_lt NInf (Fin b) = True"
| "js_lt NInf PInf = True"
| "js_lt NInf NInf = False"
| "js_lt NaN b = False"
| "js_lt a NaN = False"

text \<open>\<^verbatim>\<open>a <= b\<close>\<close>

fun js_le :: "jsnum \<Rightarrow> jsnum \<Rightarrow> bool" where
  "js_le (Fin a) (Fin b) = (a \<le> b)"
| "js_le (Fin a) PInf = True"
| "js_le (Fin a) NInf = False"
| "js_le PInf (Fin b) = False"
| "js_le PInf PInf = True"
| "js_le PInf NInf = False"
| "js_le NInf (Fin b) = True"
| "js_le NInf PInf = True"
| "js_le NInf NInf = True"
| "js_le NaN b = False"
| "js_le a NaN = False"

text \<open>\<^verbatim>\<open>a > b\<close> and \<^verbatim>\<open>a >= b\<close>\<close>

definition js_gt :: "jsnum \<Rightarrow> jsnum \<Rightarrow> bool" where
  "js_gt a b = js_lt b a"

definition js_ge :: "jsnum \<Rightarrow> jsnum \<Rightarrow> bool" where
  "js_ge a b = js_le b a"

text \<open>\<^verbatim>\<open>Math.max(a, b)\<close> and \<^verbatim>\<open>Math.min(a, b)\<close>: \<^verbatim>\<open>NaN\<close> as soon as one argument is.\<close>

fun Math_max2 :: "jsnum \<Rightarrow> jsnum \<Rightarrow> jsnum" where
  "Math_max2 NaN b = NaN"
| "Math_max2 a NaN = NaN"
| "Math_max2 a b = (if js_lt a b then b else a)"

fun Math_min2 :: "jsnum \<Rightarrow> jsnum \<Rightarrow> jsnum" where
  "Math_min2 NaN b = NaN"
| "Math_min2 a NaN = NaN"
| "Math_min2 a b = (if js_lt b a then b else a)"

text \<open>\<^verbatim>\<open>Math.max(...xs)\<close>: with no argument the result is \<^verbatim>\<open>-Infinity\<close>.\<close>

definition Math_max :: "jsnum list \<Rightarrow> jsnum" where
  "Math_max xs = foldl Math_max2 NInf xs"

text \<open>\<^verbatim>\<open>xs.reduce((a, b) => a + b, 0)\<close>\<close>

definition js_sum :: "jsnum list \<Rightarrow> jsnum" where
  "js_sum xs = foldl js_add (Fin 0) xs"

text \<open>A number lies in the closed interval from \<open>lo\<close> to \<open>hi\<close>; no non-finite value does.\<close>

fun in_range :: "rat \<Rightarrow> rat \<Rightarrow> jsnum \<Rightarrow> bool" where
  "in_range lo hi (Fin a) = (lo \<le> a \<and> a \<le> hi)"
| "in_range lo hi PInf = False"
| "in_range lo hi NInf = False"
| "in_range lo hi NaN = False"

section \<open>Double precision\<close>

text \<open>
  A JavaScript number is an IEEE 754 binary64 value: a finite one is \<open>m * 2 ^ (e - 52)\<close>
  with an integer \<open>m\<close> below \<open>2 ^ 53\<close> in absolute value and \<open>e\<close> from -1022 to 1023.
  Addition, multiplication and division return the exact result rounded to the nearest
  such value, a tie going to the even \<open>m\<close>, and an infinity once the rounded result
  reaches \<open>2 ^ 1024\<close>.
\<close>

definition pow2 :: "int \<Rightarrow> rat" where
  "pow2 k = (if 0 \<le> k then 2 ^ nat k else 1 / 2 ^ nat (- k))"

text \<open>
  The binary exponent of a positive rational \<open>x\<close>: the \<open>e\<close> with
  \<open>2 ^ e \<le> x < 2 ^ (e + 1)\<close>. The bit lengths of numerator and denominator give it up
  to one.
\<close>

definition exponent_of :: "rat \<Rightarrow> int" where
  "exponent_of x =
     (let (p, q) = quotient_of x; k = bitlen p - bitlen q
      in if pow2 k \<le> x then k else k - 1)"

text \<open>The nearest integer of a rational that is not negative, a tie going to the even one.\<close>

definition round_half_even :: "rat \<Rightarrow> int" where
  "round_half_even y =
     (let f = \<lfloor>y\<rfloor>; d = y - of_int f
      in if d < 1 / 2 then f else if 1 / 2 < d then f + 1 else if even f then f else f + 1)"

text \<open>
  The double nearest to a rational. The spacing of the doubles around \<open>x\<close> is
  \<open>2 ^ (e - 52)\<close> for the exponent \<open>e\<close> of \<open>x\<close>, and \<open>2 ^ (- 1074)\<close> below the normal
  range. The rounded multiple \<open>m\<close> of the spacing is at most \<open>2 ^ 53\<close>, so the result
  reaches \<open>2 ^ 1024\<close> exactly when \<open>e\<close> exceeds 1023, or is 1023 with \<open>m\<close> rounded up to
  \<open>2 ^ 53\<close>. It is also the value of a numeric literal such as \<^verbatim>\<open>1.3\<close>.
\<close>

definition round_double :: "rat \<Rightarrow> jsnum" where
  "round_double x =
     (if x = 0 then Fin 0
      else
        let a = \<bar>x\<bar>;
            e = max (exponent_of a) (- 1022);
            q = pow2 (e - 52);
            m = round_half_even (a / q);
            r = of_int m * q
        in if 1023 < e \<or> (e = 1023 \<and> 2 ^ 53 \<le> m) then (if 0 < x then PInf else NInf)
           else Fin (if 0 < x then r else - r))"

text \<open>A result as a double: a finite one is rounded, the others stay.\<close>

fun to_double :: "jsnum \<Rightarrow> jsnum" where
  "to_double (Fin r) = round_double r"
| "to_double PInf = PInf"
| "to_double NInf = NInf"
| "to_double NaN = NaN"

text \<open>\<^verbatim>\<open>a + b\<close>, \<^verbatim>\<open>a * b\<close> and \<^verbatim>\<open>a / b\<close> on doubles: the exact result, rounded.\<close>

definition d_add :: "jsnum \<Rightarrow> jsnum \<Rightarrow> jsnum" where
  "d_add a b = to_double (js_add a b)"

definition d_mul :: "jsnum \<Rightarrow> jsnum \<Rightarrow> jsnum" where
  "d_mul a b = to_double (js_mul a b)"

definition d_div :: "jsnum \<Rightarrow> jsnum \<Rightarrow> jsnum" where
  "d_div a b = to_double (js_div a b)"

text \<open>\<^verbatim>\<open>xs.reduce((a, b) => a + b, 0)\<close> on doubles: every partial sum is rounded.\<close>

definition d_sum :: "jsnum list \<Rightarrow> jsnum" where
  "d_sum xs = foldl d_add (Fin 0) xs"

section \<open>JavaScript arrays and strings\<close>

text \<open>
  \<^verbatim>\<open>xs.slice(start, end)\<close> and \<^verbatim>\<open>xs.slice(start)\<close>: a negative index counts from the
  end, and every index is clipped to the array.
\<close>

definition slice_index :: "nat \<Rightarrow> int \<Rightarrow> nat" where
  "slice_index len k = (if k < 0 then nat (max (int len + k) 0) else min (nat k) len)"

definition slice :: "int \<Rightarrow> int \<Rightarrow> 'a list \<Rightarrow> 'a list" where
  "slice start end xs =
     (let from = slice_index (length xs) start; to = slice_index (length xs) end
      in take (to - from) (drop from xs))"

definition slice_from :: "int \<Rightarrow> 'a list \<Rightarrow> 'a list" where
  "slice_from start xs = drop (slice_index (length xs) start) xs"

text \<open>\<^verbatim>\<open>s.includes(p)\<close>: \<open>p\<close> occurs in \<open>s\<close> as a contiguous substring.\<close>

fun str_includes :: "string \<Rightarrow> string \<Rightarrow> bool" where
  "str_includes [] p = (p = [])"
| "str_includes (c # cs) p = (prefix p (c # cs) \<or> str_includes cs p)"

text \<open>\<^verbatim>\<open>s.toLowerCase()\<close>, on the ASCII letters; other characters are left as they are.\<close>

definition lower_char :: "char \<Rightarrow> char" where
  "lower_char c =
     (let n = (of_char c :: nat) in if 65 \<le> n \<and> n \<le> 90 then char_of (n + 32) else c)"

definition toLowerCase :: "string \<Rightarrow> string" where
  "toLowerCase s = map lower_char s"

text \<open>The decimal digits of a number, as a template literal prints it.\<close>

fun string_of_nat :: "nat \<Rightarrow> string" where
  "string_of_nat n =
     (if n < 10 then [char_of (48 + n)]
      else string_of_nat (n div 10) @ [char_of (48 + n mod 10)])"

declare string_of_nat.simps [simp del]

section \<open>Classifier adapters\<close>

text \<open>
  What a \<^verbatim>\<open>fetch\<close> of a classifier gives: the call is rejected (network error, timeout),
  the response is not \<^verbatim>\<open>ok\<close>, or it carries a parsed JSON body. Scores in a body are
  finite numbers.
\<close>

datatype 'a reply = Unreachable | NotOk | Body 'a

datatype api_error = NetworkError | ApiError | TypeError

datatype risk_level = Low | Medium | High | Critical

subsection \<open>\<^verbatim>\<open>PerspectiveAnalyzer\<close> (classifier A)\<close>

text \<open>\<^verbatim>\<open>PerspectiveResponse\<close>: each attribute with its \<^verbatim>\<open>summaryScore.value\<close>, in key order.\<close>

record PerspectiveResponse =
  attributeScores :: "(string \<times> rat) list"

record perspective_result =
  p_scores :: "(string \<times> jsnum) list"
  highestScore :: jsnum
  flaggedCategories :: "string list"

text \<open>The \<^verbatim>\<open>for\<close> loop of \<^verbatim>\<open>analyzeText\<close> over \<^verbatim>\<open>Object.entries(data.attributeScores)\<close>.\<close>

fun analyzeText_loop :: "(string \<times> rat) list \<Rightarrow> perspective_result \<Rightarrow> perspective_result" where
  "analyzeText_loop [] r = r"
| "analyzeText_loop ((attribute, score) # rest) r =
     analyzeText_loop rest
       \<lparr> p_scores = p_scores r @ [(attribute, Fin score)],
         highestScore =
           (if js_gt (Fin score) (highestScore r) then Fin score else highestScore r),
         flaggedCategories =
           (if js_gt (Fin score) (Fin (7 / 10)) then flaggedCategories r @ [attribute]
            else flaggedCategories r) \<rparr>"

fun analyzeText :: "PerspectiveResponse reply \<Rightarrow> api_error + perspective_result" where
  "analyzeText Unreachable = Inl NetworkError"
| "analyzeText NotOk = Inl ApiError"
| "analyzeText (Body data) =
     Inr (analyzeText_loop (attributeScores data)
            \<lparr> p_scores = [], highestScore = Fin 0, flaggedCategories = [] \<rparr>)"

subsection \<open>\<^verbatim>\<open>OpenAIModerator\<close> (classifier B)\<close>

text \<open>
  \<^verbatim>\<open>ModerationResult\<close>: the entries of \<^verbatim>\<open>categories\<close> and of \<^verbatim>\<open>category_scores\<close>, in key
  order. \<^verbatim>\<open>ModerationResponse\<close> carries the list \<^verbatim>\<open>results\<close>.
\<close>

record ModerationResult =
  result_flagged :: bool
  result_categories :: "(string \<times> bool) list"
  category_scores :: "(string \<times> rat) list"

record ModerationResponse =
  results :: "ModerationResult list"

text \<open>What \<^verbatim>\<open>moderateText\<close> resolves to.\<close>

record moderation =
  flagged :: bool
  mod_categories :: "string list"
  scores :: "(string \<times> jsnum) list"
  criticalFlags :: "string list"
  mod_riskLevel :: risk_level

definition criticalCategories :: "string list" where
  "criticalCategories =
     [''self-harm/intent'', ''self-harm/instructions'', ''violence/graphic'',
      ''harassment/threatening'', ''sexual/minors'']"

definition calculateRiskLevel :: "(string \<times> jsnum) list \<Rightarrow> string list \<Rightarrow> risk_level" where
  "calculateRiskLevel category_scores_of critical_flags =
     (if length critical_flags > 0 then Critical
      else
        let maxScore = Math_max (map snd category_scores_of)
        in if js_gt maxScore (Fin (8 / 10)) then High
           else if js_gt maxScore (Fin (5 / 10)) then Medium
           else Low)"

text \<open>
  \<^verbatim>\<open>moderateText\<close>. Reading \<^verbatim>\<open>data.results[0].categories\<close> of an empty \<^verbatim>\<open>results\<close> throws,
  and the \<^verbatim>\<open>catch\<close> block rethrows.
\<close>

fun moderateText :: "ModerationResponse reply \<Rightarrow> api_error + moderation" where
  "moderateText Unreachable = Inl NetworkError"
| "moderateText NotOk = Inl ApiError"
| "moderateText (Body data) =
     (case results data of
        [] \<Rightarrow> Inl TypeError
      | result # _ \<Rightarrow>
          let cats = map fst (filter snd (result_categories result));
              critical = filter (\<lambda>cat. cat \<in> set criticalCategories) cats;
              score_entries = map (\<lambda>(k, v). (k, Fin v)) (category_scores result)
          in Inr \<lparr> flagged = result_flagged result,
                   mod_categories = cats,
                   scores = score_entries,
                   criticalFlags = critical,
                   mod_riskLevel = calculateRiskLevel score_entries critical \<rparr>)"

section \<open>\<^verbatim>\<open>CombinedContentAnalyzer\<close>\<close>

record Flags =
  toxicity :: bool
  selfHarm :: bool
  violence :: bool
  hate :: bool
  sexual :: bool
  mentalHealthConcern :: bool

record Details =
  perspective :: perspective_result
  openai :: moderation
  matched_keywords :: "string list"
  sentiment :: jsnum

text \<open>\<^verbatim>\<open>AnalysisResult\<close>, without its \<^verbatim>\<open>timestamp\<close> (the clock at the time of the call).\<close>

record AnalysisResult =
  message_text :: string
  riskScore :: jsnum
  riskLevel :: risk_level
  categories :: "string list"
  flags :: Flags
  details :: Details
  requiresAlert :: bool
  suggestedActions :: "string list"

datatype sentiment_trend = Improving | Declining | Stable

record ConversationAnalysis =
  messageCount :: nat
  overallRiskScore :: jsnum
  overallRiskLevel :: risk_level
  isEscalating :: bool
  sentimentTrend :: sentiment_trend
  criticalMessages :: "AnalysisResult list"
  recommendations :: "string list"

text \<open>The two keyword sets of the constructor, in insertion order.\<close>

definition mentalHealthKeywords :: "string list" where
  "mentalHealthKeywords =
     [''depressed'', ''depression'', ''anxious'', ''anxiety'', ''hopeless'',
      ''worthless'', ''lonely'', ''isolated'', ''empty'', ''numb'',
      ''tired of living'', ''can'' @ [CHR 0x27] @ ''t go on'', ''give up'', ''no point'',
      ''burden'', ''better off without me'', ''end it all'', ''done with life'']"

definition suicidalIdeationKeywords :: "string list" where
  "suicidalIdeationKeywords =
     [''kill myself'', ''suicide'', ''end my life'', ''want to die'',
      ''wish i was dead'', ''wouldn'' @ [CHR 0x27] @ ''t miss me'', ''goodbye forever'',
      ''final message'', ''take my own life'', ''self harm'', ''cut myself'',
      ''overdose'', ''jump off'', ''hang myself'']"

definition detectKeywords :: "string \<Rightarrow> string list" where
  "detectKeywords txt =
     (let normalizedText = toLowerCase txt
      in filter (\<lambda>keyword. str_includes normalizedText keyword) mentalHealthKeywords @
         map (\<lambda>keyword. ''[CRITICAL] '' @ keyword)
           (filter (\<lambda>keyword. str_includes normalizedText keyword) suicidalIdeationKeywords))"

definition positiveWords :: "string list" where
  "positiveWords = [''happy'', ''good'', ''great'', ''better'', ''hope'', ''love'', ''joy'']"

definition negativeWords :: "string list" where
  "negativeWords = [''sad'', ''bad'', ''worse'', ''hate'', ''hurt'', ''pain'', ''terrible'']"

definition analyzeSentiment :: "string \<Rightarrow> jsnum" where
  "analyzeSentiment txt =
     (let normalized = toLowerCase txt;
          score1 = foldl (\<lambda>score word.
                     if str_includes normalized word then js_add score (Fin (1 / 10)) else score)
                   (Fin 0) positiveWords;
          score2 = foldl (\<lambda>score word.
                     if str_includes normalized word then js_sub score (Fin (1 / 10)) else score)
                   score1 negativeWords
      in Math_max2 (Fin (- 1)) (Math_min2 (Fin 1) score2))"

text \<open>The constants \<^verbatim>\<open>hasCriticalKeyword\<close> and \<^verbatim>\<open>keywordScore\<close> of \<^verbatim>\<open>calculateRiskScore\<close>.\<close>

definition hasCriticalKeyword :: "string list \<Rightarrow> bool" where
  "hasCriticalKeyword ks = list_ex (\<lambda>k. str_includes k ''[CRITICAL]'') ks"

definition keywordScore :: "string list \<Rightarrow> jsnum" where
  "keywordScore ks =
     (if hasCriticalKeyword ks then Fin 100 else js_mul (Fin (of_nat (length ks))) (Fin 20))"

text \<open>
  \<^verbatim>\<open>calculateRiskScore\<close>. Every value of \<^verbatim>\<open>data.openai.scores\<close> is a number here, so the
  \<^verbatim>\<open>typeof\<close> test of the source keeps each of them.
\<close>

definition calculateRiskScore :: "perspective_result \<Rightarrow> moderation \<Rightarrow> string list \<Rightarrow> jsnum \<Rightarrow> jsnum" where
  "calculateRiskScore p m ks s =
     (let perspectiveWeight = Fin (3 / 10);
          openaiWeight = Fin (4 / 10);
          keywordWeight = Fin (2 / 10);
          sentimentWeight = Fin (1 / 10);
          perspectiveScore = js_mul (highestScore p) (Fin 100);
          openaiScore = js_mul (Math_max (map snd (scores m))) (Fin 100);
          sentimentScore = js_mul (js_sub (Fin 1) s) (Fin 50);
          composite =
            js_add (js_add (js_add (js_mul perspectiveScore perspectiveWeight)
                                   (js_mul openaiScore openaiWeight))
                           (js_mul (keywordScore ks) keywordWeight))
                   (js_mul sentimentScore sentimentWeight)
      in Math_min2 (Fin 100) (Math_max2 (Fin 0) composite))"

definition determineRiskLevel :: "jsnum \<Rightarrow> string list \<Rightarrow> risk_level" where
  "determineRiskLevel score critical_flags =
     (if length critical_flags > 0 \<or> js_ge score (Fin 80) then Critical
      else if js_ge score (Fin 60) then High
      else if js_ge score (Fin 40) then Medium
      else Low)"

text \<open>
  \<^verbatim>\<open>detectEscalation\<close>, in double precision: the two sums, the two quotients and the
  product by the literal \<^verbatim>\<open>1.3\<close> are each rounded, as the source computes them. The
  scores are doubles, given by their values.
\<close>

definition detectEscalation :: "jsnum list \<Rightarrow> bool" where
  "detectEscalation score_list =
     (if length score_list < 3 then False
      else
        let recentScores = slice_from (- 3) score_list;
            olderScores = slice (- 6) (- 3) score_list
        in if length olderScores = 0 then False
           else
             let recentAvg = d_div (d_sum recentScores) (Fin (of_nat (length recentScores)));
                 olderAvg = d_div (d_sum olderScores) (Fin (of_nat (length olderScores)))
             in js_gt recentAvg (d_mul olderAvg (round_double (13 / 10))))"

definition analyzeSentimentTrend :: "jsnum list \<Rightarrow> sentiment_trend" where
  "analyzeSentimentTrend sentiments =
     (if length sentiments < 3 then Stable
      else
        let recentAvg = js_div (js_sum (slice_from (- 3) sentiments)) (Fin 3);
            olderAvg = js_div (js_sum (slice (- 6) (- 3) sentiments)) (Fin 3)
        in if js_gt recentAvg (js_mul olderAvg (Fin (12 / 10))) then Improving
           else if js_lt recentAvg (js_mul olderAvg (Fin (8 / 10))) then Declining
           else Stable)"

definition generateSuggestedActions :: "Flags \<Rightarrow> risk_level \<Rightarrow> string list" where
  "generateSuggestedActions fl lvl =
     (let actions0 = [];
          actions1 = (if selfHarm fl
                      then actions0 @ [''IMMEDIATE: Contact crisis intervention services'',
                                       ''Notify parent/guardian immediately'',
                                       ''Provide crisis hotline resources'']
                      else actions0);
          actions2 = (if violence fl
                      then actions1 @ [''Assess immediate danger to self or others'',
                                       ''Notify appropriate authorities if threat detected'']
                      else actions1);
          actions3 = (if mentalHealthConcern fl
                      then actions2 @ [''Consider reaching out to mental health resources'',
                                       ''Monitor conversation closely'']
                      else actions2);
          actions4 = (if lvl = Critical \<or> lvl = High
                      then actions3 @ [''Send alert to trusted contacts'',
                                       ''Increase monitoring frequency'']
                      else actions3)
      in actions4)"

definition generateRecommendations ::
  "risk_level \<Rightarrow> bool \<Rightarrow> sentiment_trend \<Rightarrow> AnalysisResult list \<Rightarrow> string list" where
  "generateRecommendations overall escalating trend critical =
     (let r0 = [];
          r1 = (if length critical > 0
                then r0 @ [string_of_nat (length critical) @
                           '' critical message(s) detected - immediate review required'']
                else r0);
          r2 = (if escalating
                then r1 @ [''Conversation risk is escalating - increase monitoring'']
                else r1);
          r3 = (if trend = Declining
                then r2 @ [''Sentiment is declining - user may need support'']
                else r2);
          r4 = (if overall = Critical \<or> overall = High
                then r3 @ [''High overall risk - consider intervention'']
                else r3)
      in r4)"

text \<open>The defaults that \<^verbatim>\<open>analyzeMessage\<close> puts in place of a rejected classifier call.\<close>

definition perspective_default :: perspective_result where
  "perspective_default = \<lparr> p_scores = [], highestScore = Fin 0, flaggedCategories = [] \<rparr>"

definition openai_default :: moderation where
  "openai_default =
     \<lparr> flagged = False, mod_categories = [], scores = [], criticalFlags = [],
       mod_riskLevel = Low \<rparr>"

text \<open>
  The body of \<^verbatim>\<open>analyzeMessage\<close> after the \<^verbatim>\<open>await Promise.all\<close>, from the four joined
  values.
\<close>

definition composeResult ::
  "perspective_result \<Rightarrow> moderation \<Rightarrow> string list \<Rightarrow> jsnum \<Rightarrow> string \<Rightarrow> AnalysisResult" where
  "composeResult perspectiveResult openaiResult keywordMatches sentiment_value txt =
     (let score = calculateRiskScore perspectiveResult openaiResult keywordMatches sentiment_value;
          lvl = determineRiskLevel score (criticalFlags openaiResult);
          fl = \<lparr> toxicity = js_gt (highestScore perspectiveResult) (Fin (7 / 10)),
                 selfHarm = (''self-harm/intent'' \<in> set (mod_categories openaiResult) \<or>
                             ''self-harm/instructions'' \<in> set (mod_categories openaiResult)),
                 violence = (''violence'' \<in> set (mod_categories openaiResult) \<or>
                             ''violence/graphic'' \<in> set (mod_categories openaiResult)),
                 hate = (''hate'' \<in> set (mod_categories openaiResult) \<or>
                         ''hate/threatening'' \<in> set (mod_categories openaiResult)),
                 sexual = (''sexual'' \<in> set (mod_categories openaiResult) \<or>
                           ''sexual/minors'' \<in> set (mod_categories openaiResult)),
                 mentalHealthConcern = (length keywordMatches > 0) \<rparr>
      in \<lparr> message_text = txt,
           riskScore = score,
           riskLevel = lvl,
           categories = flaggedCategories perspectiveResult @ mod_categories openaiResult,
           flags = fl,
           details = \<lparr> perspective = perspectiveResult, openai = openaiResult,
                       matched_keywords = keywordMatches, sentiment = sentiment_value \<rparr>,
           requiresAlert = (lvl = Critical \<or> lvl = High \<or> selfHarm fl),
           suggestedActions = generateSuggestedActions fl lvl \<rparr>)"

text \<open>
  \<^verbatim>\<open>analyzeMessage\<close>, given what the two classifier calls for this text come back with. A
  rejected call is replaced by its default (\<^verbatim>\<open>.catch\<close>).
\<close>

definition analyzeMessage ::
  "PerspectiveResponse reply \<Rightarrow> ModerationResponse reply \<Rightarrow> string \<Rightarrow> AnalysisResult" where
  "analyzeMessage a b txt =
     composeResult
       (case analyzeText a of Inl _ \<Rightarrow> perspective_default | Inr r \<Rightarrow> r)
       (case moderateText b of Inl _ \<Rightarrow> openai_default | Inr r \<Rightarrow> r)
       (detectKeywords txt)
       (analyzeSentiment txt)
       txt"

text \<open>
  \<^verbatim>\<open>analyzeConversation\<close>: each message comes with the replies of its two classifier calls.
\<close>

definition analyzeConversation ::
  "(PerspectiveResponse reply \<times> ModerationResponse reply \<times> string) list \<Rightarrow> ConversationAnalysis" where
  "analyzeConversation messages =
     (let analyses = map (\<lambda>(a, b, msg). analyzeMessage a b msg) messages;
          overall = js_div (js_sum (map riskScore analyses)) (Fin (of_nat (length analyses)));
          overallLevel = determineRiskLevel overall [];
          escalating = detectEscalation (map riskScore analyses);
          trend = analyzeSentimentTrend (map (\<lambda>r. sentiment (details r)) analyses);
          critical = filter (\<lambda>r. riskLevel r = Critical \<or> riskLevel r = High) analyses
      in \<lparr> messageCount = length messages,
           overallRiskScore = overall,
           overallRiskLevel = overallLevel,
           isEscalating = escalating,
           sentimentTrend = trend,
           criticalMessages = critical,
           recommendations = generateRecommendations overallLevel escalating trend critical \<rparr>)"

section \<open>Notions used to state the properties\<close>

text \<open>The order of the four risk levels, from \<open>Low\<close> up to \<open>Critical\<close>.\<close>

fun level_rank :: "risk_level \<Rightarrow> nat" where
  "level_rank Low = 0"
| "level_rank Medium = 1"
| "level_rank High = 2"
| "level_rank Critical = 3"

text \<open>A number that is finite or \<^verbatim>\<open>-Infinity\<close>: what a maximum over finite scores can be.\<close>

fun finite_or_ninf :: "jsnum \<Rightarrow> bool" where
  "finite_or_ninf (Fin a) = True"
| "finite_or_ninf NInf = True"
| "finite_or_ninf PInf = False"
| "finite_or_ninf NaN = False"

text \<open>
  The windows of a conversation: its last three values, and the up to three values that
  come immediately before those. The arithmetic mean of a list.
\<close>

definition recent_window :: "'a list \<Rightarrow> 'a list" where
  "recent_window xs = drop (length xs - 3) xs"

definition older_window :: "'a list \<Rightarrow> 'a list" where
  "older_window xs = recent_window (take (length xs - 3) xs)"

definition mean :: "rat list \<Rightarrow> rat" where
  "mean xs = sum_list xs / of_nat (length xs)"

text \<open>
  The mean of a list of doubles as double arithmetic gives it: the running sum from 0,
  each partial sum rounded, divided by the length and rounded.
\<close>

definition double_mean :: "jsnum list \<Rightarrow> jsnum" where
  "double_mean xs = d_div (d_sum xs) (Fin (of_nat (length xs)))"

subsection \<open>The specification's wording, for comparison with the code\<close>

text \<open>
  The composite score the specification gives for an analysis in which classifier B failed:
  its component replaced by 0, the weighted sum of the three others clamped to [0, 100].
\<close>

definition spec_composite_without_B :: "rat \<Rightarrow> rat \<Rightarrow> rat \<Rightarrow> rat" where
  "spec_composite_without_B toxicityComponent keywordComponent sentimentComponent =
     min 100 (max 0 (3 / 10 * toxicityComponent + 4 / 10 * 0 + 2 / 10 * keywordComponent +
                     1 / 10 * sentimentComponent))"

text \<open>
  The specification's keyword component: 100 with a critical match, otherwise 20 points
  for each concern match, capped at 100.
\<close>

definition spec_keywordComponent :: "string list \<Rightarrow> rat" where
  "spec_keywordComponent ks =
     (if hasCriticalKeyword ks then 100
      else min 100 (20 * of_nat (length (filter (\<lambda>k. \<not> str_includes k ''[CRITICAL]'') ks))))"

text \<open>
  The specification's escalation flag: false with fewer than 3 messages or fewer than 3
  older messages, otherwise the comparison of the two window means.
\<close>

definition spec_isEscalating :: "rat list \<Rightarrow> bool" where
  "spec_isEscalating rs =
     (if length rs < 3 \<or> length (older_window rs) < 3 then False
      else mean (recent_window rs) > 13 / 10 * mean (older_window rs))"

text \<open>
  The specification's sentiment trend: the older mean is taken over the number of older
  messages that are present.
\<close>

definition spec_sentimentTrend :: "jsnum list \<Rightarrow> sentiment_trend" where
  "spec_sentimentTrend sentiments =
     (if length sentiments < 3 then Stable
      else
        let recent = recent_window sentiments;
            older = older_window sentiments;
            recentMean = js_div (js_sum recent) (Fin (of_nat (length recent)));
            olderMean = js_div (js_sum older) (Fin (of_nat (length older)))
        in if js_gt recentMean (js_mul olderMean (Fin (12 / 10))) then Improving
           else if js_lt recentMean (js_mul olderMean (Fin (8 / 10))) then Declining
           else Stable)"

section \<open>Auxiliary facts\<close>

lemma foldl_js_add_Fin: "foldl js_add (Fin a) (map Fin rs) = Fin (a + sum_list rs)"
  by (induction rs arbitrary: a) simp_all

lemma js_sum_Fin: "js_sum (map Fin rs) = Fin (sum_list rs)"
  by (simp add: js_sum_def foldl_js_add_Fin)

lemma Math_max2_lower: "finite_or_ninf a \<Longrightarrow> finite_or_ninf (Math_max2 a (Fin b))"
  by (cases a) simp_all

lemma foldl_Math_max2_lower:
  "finite_or_ninf acc \<Longrightarrow> finite_or_ninf (foldl Math_max2 acc (map Fin rs))"
  by (induction rs arbitrary: acc) (simp_all add: Math_max2_lower)

lemma Math_max_lower: "finite_or_ninf (Math_max (map Fin rs))"
  by (simp add: Math_max_def foldl_Math_max2_lower)

lemma clamp_lower:
  "finite_or_ninf x \<Longrightarrow> in_range 0 100 (Math_min2 (Fin 100) (Math_max2 (Fin 0) x))"
  by (cases x) auto

lemma slice_index_minus3: "slice_index n (- 3) = n - 3"
  unfolding slice_index_def by (simp split: if_splits) 

lemma slice_index_minus6: "slice_index n (- 6) = n - 6"
  unfolding slice_index_def by (simp split: if_splits) 

lemma slice_from_recent: "slice_from (- 3) xs = recent_window xs"
  by (simp add: slice_from_def slice_index_minus3 recent_window_def) 

lemma slice_older: "slice (- 6) (- 3) xs = older_window xs"
  by (simp add: slice_def slice_index_minus3 slice_index_minus6 recent_window_def older_window_def drop_take Let_def)

lemma analyzeText_loop_highest:
  "\<exists>h. highestScore r = Fin h \<Longrightarrow> \<exists>h. highestScore (analyzeText_loop xs r) = Fin h"
proof (induction xs arbitrary: r)
  case Nil
  then show ?case by simp
next
  case (Cons x xs)
  obtain attribute score where x: "x = (attribute, score)" by (cases x)
  show ?case unfolding x analyzeText_loop.simps
    by (rule Cons.IH) (use Cons.prems in auto)
qed

lemma perspective_highest_finite:
  "\<exists>h. highestScore (case analyzeText a of Inl e \<Rightarrow> perspective_default | Inr r \<Rightarrow> r) = Fin h"
proof (cases a)
  case (Body data)
  then show ?thesis using analyzeText_loop_highest by simp
qed (simp_all add: perspective_default_def)

lemma map_snd_entries: "map snd (map (\<lambda>(k, v). (k, Fin v)) xs) = map Fin (map snd xs)"
  by (induction xs) auto

lemma moderation_max_lower:
  "finite_or_ninf (Math_max (map snd (scores (case moderateText b of Inl e \<Rightarrow> openai_default | Inr r \<Rightarrow> r))))"
proof (cases b)
  case Unreachable
  then show ?thesis by (simp add: openai_default_def Math_max_def)
next
  case NotOk
  then show ?thesis by (simp add: openai_default_def Math_max_def)
next
  case (Body data)
  show ?thesis
  proof (cases "results data")
    case Nil
    with Body show ?thesis by (simp add: openai_default_def Math_max_def)
  next
    case (Cons result rest)
    with Body have "map snd (scores (case moderateText b of Inl e \<Rightarrow> openai_default | Inr r \<Rightarrow> r))
        = map Fin (map snd (category_scores result))"
      by (simp add: Let_def map_snd_entries del: map_map)
    then show ?thesis by (simp only: Math_max_lower)
  qed
qed

lemma foldl_add_finite:
  "\<exists>v. foldl (\<lambda>score word. if P word then js_add score (Fin c) else score) (Fin a) ws = Fin v"
  by (induction ws arbitrary: a) simp_all

lemma foldl_sub_finite:
  "\<exists>v. foldl (\<lambda>score word. if P word then js_sub score (Fin c) else score) (Fin a) ws = Fin v"
  by (induction ws arbitrary: a) (simp_all add: js_sub_def)

lemma clamp_unit: "Math_max2 (Fin (- 1)) (Math_min2 (Fin 1) (Fin x)) = Fin (max (- 1) (min 1 x))"
  by (simp add: max_def min_def)

lemma analyzeSentiment_finite: "\<exists>v. analyzeSentiment txt = Fin v \<and> - 1 \<le> v \<and> v \<le> 1"
proof -
  obtain u where u: "foldl (\<lambda>score word.
      if str_includes (toLowerCase txt) word then js_add score (Fin (1 / 10)) else score)
      (Fin 0) positiveWords = Fin u"
    using foldl_add_finite by blast
  obtain w where w: "foldl (\<lambda>score word.
      if str_includes (toLowerCase txt) word then js_sub score (Fin (1 / 10)) else score)
      (Fin u) negativeWords = Fin w"
    using foldl_sub_finite by blast
  have "analyzeSentiment txt = Fin (max (- 1) (min 1 w))"
    by (simp add: analyzeSentiment_def Let_def u w clamp_unit del: Math_max2.simps Math_min2.simps)
  then show ?thesis by auto
qed

lemma keywordScore_value:
  "keywordScore ks = (if hasCriticalKeyword ks then Fin 100 else Fin (20 * of_nat (length ks)))"
  by (simp add: keywordScore_def mult.commute)

lemma calculateRiskScore_range:
  assumes "highestScore p = Fin h" and "finite_or_ninf (Math_max (map snd (scores m)))"
    and "s = Fin v"
  shows "in_range 0 100 (calculateRiskScore p m ks s)"
proof -
  obtain k where k: "keywordScore ks = Fin k"
    by (cases "hasCriticalKeyword ks") (simp_all add: keywordScore_value)
  have "finite_or_ninf
     (js_add (js_add (js_add (js_mul (js_mul (Fin h) (Fin 100)) (Fin (3 / 10)))
                (js_mul (js_mul (Math_max (map snd (scores m))) (Fin 100)) (Fin (4 / 10))))
         (js_mul (Fin k) (Fin (2 / 10))))
       (js_mul (js_mul (js_sub (Fin 1) (Fin v)) (Fin 50)) (Fin (1 / 10))))"
    using assms(2) by (cases "Math_max (map snd (scores m))") (simp_all add: js_sub_def inf_times_def)
  then show ?thesis
    unfolding calculateRiskScore_def Let_def assms(1) assms(3) k
    by (rule clamp_lower)
qed

lemma calculateRiskScore_no_scores:
  assumes "highestScore p = Fin h" and "scores m = []" and "s = Fin v"
  shows "calculateRiskScore p m ks s = Fin 0"
proof -
  obtain k where k: "keywordScore ks = Fin k"
    by (cases "hasCriticalKeyword ks") (simp_all add: keywordScore_value)
  show ?thesis
    unfolding calculateRiskScore_def Let_def assms k
    by (simp add: Math_max_def js_sub_def inf_times_def)
qed


lemma critical_flag_level: "critical_flags \<noteq> [] \<Longrightarrow> determineRiskLevel score critical_flags = Critical"
  by (simp add: determineRiskLevel_def)

lemma member_nonempty: "x \<in> set xs \<Longrightarrow> xs \<noteq> []"
  by auto


subsection \<open>Rounding to the nearest double\<close>

text \<open>
  \<open>round_double\<close> is the rounding of IEEE 754: a finite result is a multiple \<open>m\<close> of the
  spacing \<open>2 ^ (e - 52)\<close> with \<open>m\<close> at most \<open>2 ^ 53\<close>, it lies within half a spacing of
  the argument, a tie goes to the even multiple, and the result is an infinity exactly
  when the rounded value reaches \<open>2 ^ 1024\<close>.
\<close>

lemma pow2_powi: "pow2 k = 2 powi k"
  by (simp add: pow2_def power_int_def inverse_eq_divide power_one_over)

lemma round_half_even_near: "\<bar>of_int (round_half_even y) - y\<bar> \<le> 1 / 2"
proof -
  have "of_int \<lfloor>y\<rfloor> \<le> y" "y < of_int \<lfloor>y\<rfloor> + 1" by linarith+
  then show ?thesis
    by (auto simp add: round_half_even_def Let_def)
qed

lemma round_half_even_of_int: "round_half_even (of_int n) = n"
  by (simp add: round_half_even_def)

lemma bitlen_powi:
  assumes "0 < n"
  shows "(2::rat) powi (bitlen n - 1) \<le> of_int n \<and> (of_int n :: rat) < 2 powi (bitlen n)"
proof -
  from bitlen_bounds [OF assms]
  have b: "2 ^ nat (bitlen n - 1) \<le> n" "n < 2 ^ nat (bitlen n)" by simp_all
  have pos: "0 \<le> bitlen n - 1"
    using b(2) assms by (cases "0 < bitlen n") auto
  have "(of_int (2 ^ nat (bitlen n - 1)) :: rat) \<le> of_int n"
    using b(1) by (simp only: of_int_le_iff)
  moreover have "(of_int n :: rat) < of_int (2 ^ nat (bitlen n))"
    using b(2) by (simp only: of_int_less_iff)
  ultimately show ?thesis
    using pos by (simp add: power_int_def)
qed

lemma exponent_of_bounds:
  assumes "0 < x"
  shows "pow2 (exponent_of x) \<le> x \<and> x < pow2 (exponent_of x + 1)"
proof -
  obtain p q where pq: "quotient_of x = (p, q)" by (cases "quotient_of x")
  then have q: "0 < q" by (rule quotient_of_denom_pos)
  have x: "x = of_int p / of_int q" using pq by (rule quotient_of_div)
  have p: "0 < p" using assms q unfolding x by (simp add: zero_less_divide_iff)
  note P = bitlen_powi [OF p] and Q = bitlen_powi [OF q]
  have qpos: "(0::rat) < of_int q" using q by simp
  have e1: "(2::rat) powi (bitlen p - bitlen q - 1) = 2 powi (bitlen p - 1) / 2 powi (bitlen q)"
  proof -
    have a: "bitlen p - bitlen q - 1 = (bitlen p - 1) - bitlen q" by simp
    show ?thesis
      unfolding a using power_int_diff [of "2::rat" "bitlen p - 1" "bitlen q"] by simp
  qed
  have e2: "(2::rat) powi (bitlen p - bitlen q + 1) = 2 powi (bitlen p) / 2 powi (bitlen q - 1)"
  proof -
    have a: "bitlen p - bitlen q + 1 = bitlen p - (bitlen q - 1)" by simp
    show ?thesis
      unfolding a using power_int_diff [of "2::rat" "bitlen p" "bitlen q - 1"] by simp
  qed
  have lo: "(2::rat) powi (bitlen p - bitlen q - 1) \<le> x"
    unfolding x e1 using P Q p q by (intro frac_le) simp_all
  have hi: "x < (2::rat) powi (bitlen p - bitlen q + 1)"
    unfolding x e2 using P Q p q by (intro frac_less) simp_all
  show ?thesis
    using lo hi by (auto simp add: exponent_of_def pq Let_def pow2_powi)
qed


lemma round_half_even_tie: "y - of_int \<lfloor>y\<rfloor> = 1 / 2 \<Longrightarrow> even (round_half_even y)"
  by (simp add: round_half_even_def Let_def)

lemma pow2_pos: "0 < pow2 k"
  by (simp add: pow2_def)

lemma pow2_half: "pow2 (k - 1) = pow2 k / 2"
  unfolding pow2_powi using power_int_diff [of "2::rat" k 1] by simp

lemma pow2_mono: "j \<le> k \<Longrightarrow> pow2 j \<le> pow2 k"
  unfolding pow2_powi by (rule power_int_increasing) simp_all

lemma pow2_split: "pow2 (e + 1) = 2 ^ 53 * pow2 (e - 52)"
proof -
  have "e + 1 = 53 + (e - 52)" by simp
  then have "pow2 (e + 1) = 2 powi (53 + (e - 52))" by (simp only: pow2_powi)
  also have "\<dots> = 2 powi 53 * 2 powi (e - 52)" by (rule power_int_add) simp
  finally show ?thesis by (simp add: pow2_powi)
qed

lemma round_double_nearest:
  assumes "x \<noteq> 0" and "round_double x = Fin r"
  shows "\<exists>m. 0 \<le> m \<and> m \<le> 2 ^ 53 \<and>
           \<bar>r\<bar> = of_int m * pow2 (max (exponent_of \<bar>x\<bar>) (- 1022) - 52) \<and>
           \<bar>r - x\<bar> \<le> pow2 (max (exponent_of \<bar>x\<bar>) (- 1022) - 52) / 2"
proof -
  define a where "a = \<bar>x\<bar>"
  define e where "e = max (exponent_of a) (- 1022)"
  define q where "q = pow2 (e - 52)"
  define m where "m = round_half_even (a / q)"
  have a: "0 < a" using assms(1) by (simp add: a_def)
  have q: "0 < q" by (simp add: q_def pow2_pos)
  have near: "\<bar>of_int m - a / q\<bar> \<le> 1 / 2"
    unfolding m_def by (rule round_half_even_near)
  have "a < pow2 (exponent_of a + 1)" using exponent_of_bounds [OF a] by simp
  also have "\<dots> \<le> pow2 (e + 1)" by (rule pow2_mono) (simp add: e_def)
  also have "\<dots> = 2 ^ 53 * q" by (simp add: q_def pow2_split)
  finally have "a / q < 2 ^ 53" using q by (simp add: pos_divide_less_eq)
  moreover have "0 \<le> a / q" using a q by simp
  ultimately have "- 1 < (of_int m :: rat)" "(of_int m :: rat) < 2 ^ 53 + 1"
    using near by linarith+
  then have "(of_int (- 1) :: rat) < of_int m" "(of_int m :: rat) < of_int (2 ^ 53 + 1)"
    by simp_all
  then have m: "0 \<le> m" "m \<le> 2 ^ 53"
    unfolding of_int_less_iff by simp_all
  have r: "r = (if 0 < x then of_int m * q else - (of_int m * q))"
    using assms
    by (simp add: round_double_def Let_def a_def [symmetric] e_def [symmetric] q_def [symmetric]
        m_def [symmetric] split: if_splits)
  have "of_int m * q - a = (of_int m - a / q) * q"
    using q by (simp add: left_diff_distrib)
  then have "\<bar>of_int m * q - a\<bar> = \<bar>of_int m - a / q\<bar> * q"
    using q by (simp only: abs_mult abs_of_pos)
  also have "\<dots> \<le> 1 / 2 * q"
    using near q by (simp only: mult_right_mono less_imp_le)
  finally have dist: "\<bar>of_int m * q - a\<bar> \<le> q / 2" by simp
  have "\<bar>r\<bar> = of_int m * q" using r m q by (simp add: abs_mult)
  moreover have "\<bar>r - x\<bar> \<le> q / 2"
    using dist r by (auto simp add: a_def abs_if split: if_splits)
  ultimately show ?thesis
    using m unfolding q_def e_def a_def by blast
qed


lemma round_half_even_lower: "of_int n \<le> y \<Longrightarrow> n \<le> round_half_even y"
proof -
  assume "of_int n \<le> y"
  then have "n \<le> \<lfloor>y\<rfloor>" by (simp add: le_floor_iff)
  then show ?thesis by (simp add: round_half_even_def Let_def)
qed

lemma pow2_less: "j < k \<Longrightarrow> pow2 j < pow2 k"
  unfolding pow2_powi by (rule power_int_strict_increasing) simp_all

lemma pow2_split52: "pow2 e = 2 ^ 52 * pow2 (e - 52)"
proof -
  have "e = 52 + (e - 52)" by simp
  then have "pow2 e = 2 powi (52 + (e - 52))" by (simp only: pow2_powi)
  also have "\<dots> = 2 powi 52 * 2 powi (e - 52)" by (rule power_int_add) simp
  finally show ?thesis by (simp add: pow2_powi)
qed

lemma round_double_overflow:
  assumes "x \<noteq> 0"
  shows "(round_double x = PInf \<or> round_double x = NInf) =
     (pow2 1024 \<le> of_int (round_half_even
         (\<bar>x\<bar> / pow2 (max (exponent_of \<bar>x\<bar>) (- 1022) - 52))) *
        pow2 (max (exponent_of \<bar>x\<bar>) (- 1022) - 52))"
proof -
  define a where "a = \<bar>x\<bar>"
  define e where "e = max (exponent_of a) (- 1022)"
  define q where "q = pow2 (e - 52)"
  define m where "m = round_half_even (a / q)"
  have a: "0 < a" using assms(1) by (simp add: a_def)
  have q: "0 < q" by (simp add: q_def pow2_pos)
  have inf: "(round_double x = PInf \<or> round_double x = NInf) =
      (1023 < e \<or> (e = 1023 \<and> 2 ^ 53 \<le> m))"
    using assms
    by (simp add: round_double_def Let_def a_def [symmetric] e_def [symmetric] q_def [symmetric]
        m_def [symmetric])
  have near: "\<bar>of_int m - a / q\<bar> \<le> 1 / 2"
    unfolding m_def by (rule round_half_even_near)
  have "a < pow2 (exponent_of a + 1)" using exponent_of_bounds [OF a] by simp
  also have "\<dots> \<le> pow2 (e + 1)" by (rule pow2_mono) (simp add: e_def)
  also have "\<dots> = 2 ^ 53 * q" by (simp add: q_def pow2_split)
  finally have "a / q < 2 ^ 53" using q by (simp add: pos_divide_less_eq)
  then have "(of_int m :: rat) < 2 ^ 53 + 1"
    using near by linarith
  then have "(of_int m :: rat) < of_int (2 ^ 53 + 1)"
    by simp
  then have m_hi: "m \<le> 2 ^ 53"
    unfolding of_int_less_iff by simp
  have top: "pow2 1024 = 2 ^ 53 * pow2 (1023 - 52)"
    using pow2_split [of 1023] by simp
  have chk: "(1023 < e \<or> (e = 1023 \<and> 2 ^ 53 \<le> m)) = (pow2 1024 \<le> of_int m * q)"
  proof (cases "1023 < e")
    case True
    then have ee: "e = exponent_of a" by (simp add: e_def max_def split: if_splits)
    have s52: "2 ^ 52 * q = pow2 e"
      unfolding q_def by (rule pow2_split52 [symmetric])
    have "pow2 e \<le> a" using exponent_of_bounds [OF a] by (simp add: ee)
    then have "2 ^ 52 * q \<le> a" by (simp only: s52)
    then have "of_int (2 ^ 52) \<le> a / q" using q by (simp add: pos_le_divide_eq)
    then have "2 ^ 52 \<le> m" unfolding m_def by (rule round_half_even_lower)
    then have "(of_int (2 ^ 52) :: rat) \<le> of_int m" by (simp only: of_int_le_iff)
    then have "of_int (2 ^ 52) * q \<le> of_int m * q" using q by (simp only: mult_right_mono less_imp_le)
    then have "2 ^ 52 * q \<le> of_int m * q" by simp
    then have "pow2 e \<le> of_int m * q" by (simp only: s52)
    moreover have "pow2 1024 \<le> pow2 e" by (rule pow2_mono) (use True in simp)
    ultimately have "pow2 1024 \<le> of_int m * q" by simp
    with True show ?thesis by simp
  next
    case False
    show ?thesis
    proof (cases "e = 1023")
      case True
      have "(pow2 1024 \<le> of_int m * q) = ((2 ^ 53 :: rat) \<le> of_int m)"
        using q by (simp add: top True q_def)
      also have "\<dots> = ((of_int (2 ^ 53) :: rat) \<le> of_int m)" by simp
      also have "\<dots> = (2 ^ 53 \<le> m)" by (simp only: of_int_le_iff)
      finally show ?thesis using True by simp
    next
      case False
      with \<open>\<not> 1023 < e\<close> have lt: "e + 1 < 1024" by simp
      have "(of_int m :: rat) \<le> of_int (2 ^ 53)" using m_hi by (simp only: of_int_le_iff)
      then have "of_int m * q \<le> 2 ^ 53 * q" using q by (simp add: mult_right_mono)
      also have "\<dots> = pow2 (e + 1)" by (simp add: q_def pow2_split)
      also have "\<dots> < pow2 1024" by (rule pow2_less) (use lt in simp)
      finally have "\<not> pow2 1024 \<le> of_int m * q" by simp
      with False \<open>\<not> 1023 < e\<close> show ?thesis by simp
    qed
  qed
  have "(round_double x = PInf \<or> round_double x = NInf) = (pow2 1024 \<le> of_int m * q)"
    by (simp only: inf chk)
  then show ?thesis
    unfolding m_def q_def e_def a_def .
qed

section \<open>Properties of the analyzer\<close>

text \<open>
  C1 (classifier B fails). The specification asks that the analysis then completes with the
  three surviving components, as \<open>spec_composite_without_B\<close> states. The code puts the
  default \<^verbatim>\<open>scores: {}\<close> in place of the failed call, \<^verbatim>\<open>Math.max\<close> of no scores is
  \<^verbatim>\<open>-Infinity\<close>, the composite becomes \<^verbatim>\<open>-Infinity\<close> and the clamp returns 0: whenever
  \<^verbatim>\<open>moderateText\<close> fails, \<open>riskScore\<close> is 0, whatever classifier A, the keywords and the
  sentiment say.
\<close>

theorem riskScore_zero_when_classifier_B_fails:
  assumes "moderateText b = Inl e"
  shows "riskScore (analyzeMessage a b txt) = Fin 0"
proof -
  obtain h where h: "highestScore (case analyzeText a of Inl e \<Rightarrow> perspective_default | Inr r \<Rightarrow> r) = Fin h"
    using perspective_highest_finite by blast
  obtain v where v: "analyzeSentiment txt = Fin v"
    using analyzeSentiment_finite by blast
  have "calculateRiskScore (case analyzeText a of Inl e \<Rightarrow> perspective_default | Inr r \<Rightarrow> r)
          openai_default (detectKeywords txt) (analyzeSentiment txt) = Fin 0"
    by (rule calculateRiskScore_no_scores [OF h _ v]) (simp add: openai_default_def)
  then show ?thesis
    by (simp add: analyzeMessage_def composeResult_def Let_def assms)
qed

theorem riskScore_zero_when_classifier_B_fails_witness:
  "moderateText Unreachable = Inl NetworkError \<and>
   riskScore (analyzeMessage (Body \<lparr>attributeScores = [(''TOXICITY'', 9 / 10)]\<rparr>) Unreachable
      ''I feel sad and bad, i want to die'') = Fin 0 \<and>
   riskLevel (analyzeMessage (Body \<lparr>attributeScores = [(''TOXICITY'', 9 / 10)]\<rparr>) Unreachable
      ''I feel sad and bad, i want to die'') = Low \<and>
   js_mul (highestScore (perspective (details
      (analyzeMessage (Body \<lparr>attributeScores = [(''TOXICITY'', 9 / 10)]\<rparr>) Unreachable
         ''I feel sad and bad, i want to die'')))) (Fin 100) = Fin 90 \<and>
   keywordScore (detectKeywords ''I feel sad and bad, i want to die'') = Fin 100 \<and>
   js_mul (js_sub (Fin 1) (analyzeSentiment ''I feel sad and bad, i want to die'')) (Fin 50) = Fin 60 \<and>
   spec_composite_without_B 90 100 60 = 53"
proof -
  have f: "moderateText Unreachable = Inl NetworkError" by simp
  have z: "riskScore (analyzeMessage (Body \<lparr>attributeScores = [(''TOXICITY'', 9 / 10)]\<rparr>) Unreachable
      ''I feel sad and bad, i want to die'') = Fin 0"
    by (rule riskScore_zero_when_classifier_B_fails [OF f])
  have l: "riskLevel (analyzeMessage (Body \<lparr>attributeScores = [(''TOXICITY'', 9 / 10)]\<rparr>) Unreachable
      ''I feel sad and bad, i want to die'') = Low"
    by code_simp
  have t: "js_mul (highestScore (perspective (details
      (analyzeMessage (Body \<lparr>attributeScores = [(''TOXICITY'', 9 / 10)]\<rparr>) Unreachable
         ''I feel sad and bad, i want to die'')))) (Fin 100) = Fin 90"
    by code_simp
  have k: "keywordScore (detectKeywords ''I feel sad and bad, i want to die'') = Fin 100"
    by code_simp
  have s: "js_mul (js_sub (Fin 1) (analyzeSentiment ''I feel sad and bad, i want to die'')) (Fin 50) = Fin 60"
    by code_simp
  have c: "spec_composite_without_B 90 100 60 = 53"
    by (simp add: spec_composite_without_B_def)
  from f z l t k s c show ?thesis by simp
qed


text \<open>
  C2 (critical override). If the body of classifier B's reply flags a category of the
  fixed critical set, the risk level of the message is \<open>Critical\<close>, whatever the composite
  score is. In the witness the score is 17.
\<close>

theorem critical_category_forces_critical:
  assumes "results data = result # rest"
    and "(c, True) \<in> set (result_categories result)"
    and "c \<in> set criticalCategories"
  shows "riskLevel (analyzeMessage a (Body data) txt) = Critical"
proof -
  have "c \<in> set (map fst (filter snd (result_categories result)))"
    using assms(2) by force
  then have "c \<in> set (filter (\<lambda>cat. cat \<in> set criticalCategories)
       (map fst (filter snd (result_categories result))))"
    using assms(3) by simp
  then have "filter (\<lambda>cat. cat \<in> set criticalCategories)
       (map fst (filter snd (result_categories result))) \<noteq> []"
    by (rule member_nonempty)
  then show ?thesis
    by (simp add: analyzeMessage_def composeResult_def Let_def assms(1) critical_flag_level)
qed

theorem critical_category_forces_critical_witness:
  "riskLevel (analyzeMessage Unreachable
      (Body \<lparr>results = [\<lparr>result_flagged = True,
          result_categories = [(''hate'', False), (''self-harm/intent'', True)],
          category_scores = [(''hate'', 1 / 100), (''self-harm/intent'', 3 / 10)]\<rparr>]\<rparr>)
      ''hello'') = Critical \<and>
   riskScore (analyzeMessage Unreachable
      (Body \<lparr>results = [\<lparr>result_flagged = True,
          result_categories = [(''hate'', False), (''self-harm/intent'', True)],
          category_scores = [(''hate'', 1 / 100), (''self-harm/intent'', 3 / 10)]\<rparr>]\<rparr>)
      ''hello'') = Fin 17"
proof -
  let ?result = "\<lparr>result_flagged = True,
          result_categories = [(''hate'', False), (''self-harm/intent'', True)],
          category_scores = [(''hate'', 1 / 100), (''self-harm/intent'', 3 / 10)]\<rparr>"
  let ?data = "\<lparr>results = [?result]\<rparr>"
  have r: "results ?data = ?result # []" by simp
  have m: "(''self-harm/intent'', True) \<in> set (result_categories ?result)" by simp
  have c: "''self-harm/intent'' \<in> set criticalCategories" by (simp add: criticalCategories_def)
  have "riskLevel (analyzeMessage Unreachable (Body ?data) ''hello'') = Critical"
    by (rule critical_category_forces_critical [OF r m c])
  moreover have "riskScore (analyzeMessage Unreachable (Body ?data) ''hello'') = Fin 17"
    by code_simp
  ultimately show ?thesis by simp
qed

text \<open>
  C3 (keyword component). With a critical match the component is 100. Without one the code
  takes 20 points for each match and applies no cap of its own (\<open>keywordScore_value\<close>),
  where the specification caps the component at 100: a text with six concern terms and no
  critical term gets 120.
\<close>

theorem keywordScore_six_concern_matches:
  "detectKeywords ''Depressed, anxious, hopeless, worthless, lonely and isolated'' =
     [''depressed'', ''anxious'', ''hopeless'', ''worthless'', ''lonely'', ''isolated''] \<and>
   \<not> hasCriticalKeyword (detectKeywords ''Depressed, anxious, hopeless, worthless, lonely and isolated'') \<and>
   keywordScore (detectKeywords ''Depressed, anxious, hopeless, worthless, lonely and isolated'') = Fin 120 \<and>
   spec_keywordComponent (detectKeywords ''Depressed, anxious, hopeless, worthless, lonely and isolated'') = 100"
proof -
  have d: "detectKeywords ''Depressed, anxious, hopeless, worthless, lonely and isolated'' =
     [''depressed'', ''anxious'', ''hopeless'', ''worthless'', ''lonely'', ''isolated'']"
    by code_simp
  have h: "\<not> hasCriticalKeyword [''depressed'', ''anxious'', ''hopeless'', ''worthless'', ''lonely'', ''isolated'']"
    by code_simp
  have k: "keywordScore [''depressed'', ''anxious'', ''hopeless'', ''worthless'', ''lonely'', ''isolated''] = Fin 120"
    by (simp add: keywordScore_value h)
  have s: "spec_keywordComponent [''depressed'', ''anxious'', ''hopeless'', ''worthless'', ''lonely'', ''isolated''] = 100"
    by code_simp
  show ?thesis unfolding d using h k s by simp
qed

text \<open>
  C4 (escalation), as the code decides it. Escalation is false for up to three scores: fewer
  than three, or exactly three and so no older score. From four scores on it holds exactly
  when the mean of the last three scores exceeds 1.3 times the mean of the older window,
  which holds the one, two or three scores that precede the last three; that mean is over
  the scores the window really has. Sums, means, the product and the comparison are the
  ones of double arithmetic.
\<close>

theorem detectEscalation_windows:
  "detectEscalation score_list =
     (3 < length score_list \<and>
      js_gt (double_mean (recent_window score_list))
            (d_mul (double_mean (older_window score_list)) (round_double (13 / 10)))) \<and>
   length (recent_window score_list) = min 3 (length score_list) \<and>
   length (older_window score_list) = min 3 (length score_list - 3)"
proof -
  have lens: "length (recent_window score_list) = min 3 (length score_list)"
      "length (older_window score_list) = min 3 (length score_list - 3)"
    by (simp_all add: recent_window_def older_window_def)
  have "detectEscalation score_list =
     (3 < length score_list \<and>
      js_gt (double_mean (recent_window score_list))
            (d_mul (double_mean (older_window score_list)) (round_double (13 / 10))))"
  proof (cases "length score_list \<le> 3")
    case True
    then have "length (older_window score_list) = 0"
      by (simp add: lens)
    with True show ?thesis
      by (simp add: detectEscalation_def slice_from_recent slice_older Let_def)
  next
    case False
    then have "length (older_window score_list) \<noteq> 0"
      by (simp add: lens)
    then have "older_window score_list \<noteq> []"
      by simp
    with False show ?thesis
      by (simp add: detectEscalation_def slice_from_recent slice_older Let_def double_mean_def)
  qed
  with lens show ?thesis by simp
qed

text \<open>
  Four score_list on which the rounding decides. With 11 before three times 14.3 the exact
  means give 14.3 on both sides; in doubles the recent mean is the next double above 14.3
  and the product is the double of 14.3, so the code reports escalation.
\<close>

theorem detectEscalation_windows_witness:
  "detectEscalation (map round_double [11, 143 / 10, 143 / 10, 143 / 10]) \<and>
   double_mean (recent_window (map round_double [11, 143 / 10, 143 / 10, 143 / 10])) =
     Fin (8050184333924763 / 562949953421312) \<and>
   d_mul (double_mean (older_window (map round_double [11, 143 / 10, 143 / 10, 143 / 10])))
     (round_double (13 / 10)) = Fin (4025092166962381 / 281474976710656) \<and>
   round_double (143 / 10) = Fin (4025092166962381 / 281474976710656)"
proof -
  let ?scores = "map round_double [11, 143 / 10, 143 / 10, 143 / 10]"
  have r: "double_mean (recent_window ?scores) = Fin (8050184333924763 / 562949953421312)"
    by code_simp
  have old: "d_mul (double_mean (older_window ?scores)) (round_double (13 / 10)) =
      Fin (4025092166962381 / 281474976710656)"
    by code_simp
  have lit: "round_double (143 / 10) = Fin (4025092166962381 / 281474976710656)"
    by code_simp
  have "detectEscalation ?scores"
    using detectEscalation_windows [of ?scores]
    by (simp only: r old) (simp add: js_gt_def)
  with r old lit show ?thesis by simp
qed

text \<open>
  Two more lists of four doubles: here the exact means would give escalation (the double
  of 27.716 exceeds 1.3 times the double of 21.32) or equality, and the code reports none.
\<close>

lemma detectEscalation_rounding_samples:
  "\<not> detectEscalation (map round_double [2132 / 100, 27716 / 1000, 27716 / 1000, 27716 / 1000])"
  "\<not> detectEscalation (map round_double [1, 13 / 10, 13 / 10, 13 / 10])"
  by code_simp+

text \<open>
  The specification's wording makes escalation false for four messages, whose older window
  has one score. The code compares with that one score, and reports escalation here.
\<close>

theorem detectEscalation_short_older_window_counterexample:
  "length [10, 50, 50, 50 :: rat] = 4 \<and>
   detectEscalation (map Fin [10, 50, 50, 50]) \<and>
   \<not> spec_isEscalating [10, 50, 50, 50]"
proof -
  have "detectEscalation (map Fin [10, 50, 50, 50])" by code_simp
  moreover have "\<not> spec_isEscalating [10, 50, 50, 50]" by code_simp
  ultimately show ?thesis by simp
qed

text \<open>
  C5 (sentiment trend). The specification takes the older mean over the older messages that
  are present. \<^verbatim>\<open>analyzeSentimentTrend\<close> divides the older sum by the literal 3, however
  many older values there are (\<^verbatim>\<open>detectEscalation\<close> divides by the window's length). In
  a conversation of four messages with sentiments 0.3, 0.1, 0.1, 0.1 the code's older
  average is 0.1 and the trend is \<open>Stable\<close>; the mean of the one older value is 0.3, for
  which the trend is \<open>Declining\<close>.
\<close>

theorem sentimentTrend_divides_by_three:
  "map (\<lambda>r. sentiment (details r))
     (map (\<lambda>(a, b, msg). analyzeMessage a b msg)
        [(Unreachable, Unreachable, ''happy, good, great''), (Unreachable, Unreachable, ''good''),
         (Unreachable, Unreachable, ''good''), (Unreachable, Unreachable, ''good'')])
     = map Fin [3 / 10, 1 / 10, 1 / 10, 1 / 10] \<and>
   sentimentTrend (analyzeConversation
        [(Unreachable, Unreachable, ''happy, good, great''), (Unreachable, Unreachable, ''good''),
         (Unreachable, Unreachable, ''good''), (Unreachable, Unreachable, ''good'')]) = Stable \<and>
   analyzeSentimentTrend (map Fin [3 / 10, 1 / 10, 1 / 10, 1 / 10]) = Stable \<and>
   spec_sentimentTrend (map Fin [3 / 10, 1 / 10, 1 / 10, 1 / 10]) = Declining"
proof -
  have a: "map (\<lambda>r. sentiment (details r))
     (map (\<lambda>(a, b, msg). analyzeMessage a b msg)
        [(Unreachable, Unreachable, ''happy, good, great''), (Unreachable, Unreachable, ''good''),
         (Unreachable, Unreachable, ''good''), (Unreachable, Unreachable, ''good'')])
     = map Fin [3 / 10, 1 / 10, 1 / 10, 1 / 10]"
    by code_simp
  have b: "sentimentTrend (analyzeConversation
        [(Unreachable, Unreachable, ''happy, good, great''), (Unreachable, Unreachable, ''good''),
         (Unreachable, Unreachable, ''good''), (Unreachable, Unreachable, ''good'')]) = Stable"
    by code_simp
  have c: "analyzeSentimentTrend (map Fin [3 / 10, 1 / 10, 1 / 10, 1 / 10]) = Stable"
    by code_simp
  have d: "spec_sentimentTrend (map Fin [3 / 10, 1 / 10, 1 / 10, 1 / 10]) = Declining"
    by code_simp
  from a b c d show ?thesis by blast
qed

text \<open>
  C6 (thresholds). With no critical flag of classifier B the risk level is a step function
  of the score: \<open>Low\<close> below 40, \<open>Medium\<close> from 40 and below 60, \<open>High\<close> from 60 and
  below 80, \<open>Critical\<close> from 80 on; and a higher score never gives a lower level.
\<close>

theorem determineRiskLevel_step_function:
  "determineRiskLevel (Fin s) [] =
     (if s < 40 then Low else if s < 60 then Medium else if s < 80 then High else Critical) \<and>
   (s \<le> t \<longrightarrow>
      level_rank (determineRiskLevel (Fin s) []) \<le> level_rank (determineRiskLevel (Fin t) []))"
  by (simp add: determineRiskLevel_def js_ge_def)

theorem determineRiskLevel_step_function_witness:
  "(399 / 10 :: rat) \<le> 40 \<and>
   determineRiskLevel (Fin (399 / 10)) [] = Low \<and> determineRiskLevel (Fin 40) [] = Medium \<and>
   level_rank (determineRiskLevel (Fin (399 / 10)) []) \<le> level_rank (determineRiskLevel (Fin 40) []) \<and>
   determineRiskLevel (Fin (599 / 10)) [] = Medium \<and> determineRiskLevel (Fin 60) [] = High \<and>
   determineRiskLevel (Fin (799 / 10)) [] = High \<and> determineRiskLevel (Fin 80) [] = Critical"
  using determineRiskLevel_step_function [of "399 / 10" 40]
    determineRiskLevel_step_function [of "599 / 10" 60]
    determineRiskLevel_step_function [of "799 / 10" 80]
    determineRiskLevel_step_function [of 40 60]
    determineRiskLevel_step_function [of 60 80]
    determineRiskLevel_step_function [of 80 80]
  by simp

lemma analyzeMessage_riskScore_range: "in_range 0 100 (riskScore (analyzeMessage a b txt))"
proof -
  obtain h where h: "highestScore (case analyzeText a of Inl e \<Rightarrow> perspective_default | Inr r \<Rightarrow> r) = Fin h"
    using perspective_highest_finite by blast
  obtain v where v: "analyzeSentiment txt = Fin v"
    using analyzeSentiment_finite by blast
  have "in_range 0 100
     (calculateRiskScore (case analyzeText a of Inl e \<Rightarrow> perspective_default | Inr r \<Rightarrow> r)
        (case moderateText b of Inl e \<Rightarrow> openai_default | Inr r \<Rightarrow> r)
        (detectKeywords txt) (analyzeSentiment txt))"
    by (rule calculateRiskScore_range [OF h moderation_max_lower v])
  then show ?thesis
    by (simp add: analyzeMessage_def composeResult_def Let_def)
qed

lemma analyzeMessage_sentiment_range:
  "in_range (- 1) 1 (sentiment (details (analyzeMessage a b txt)))"
proof -
  obtain v where "analyzeSentiment txt = Fin v" "- 1 \<le> v" "v \<le> 1"
    using analyzeSentiment_finite by blast
  then show ?thesis
    by (simp add: analyzeMessage_def composeResult_def Let_def)
qed

lemma in_range_list:
  "(\<And>x. x \<in> set xs \<Longrightarrow> in_range lo hi x) \<Longrightarrow>
   \<exists>rs. xs = map Fin rs \<and> (\<forall>r \<in> set rs. lo \<le> r \<and> r \<le> hi)"
proof (induction xs)
  case Nil
  then show ?case by simp
next
  case (Cons x xs)
  then obtain rs where rs: "xs = map Fin rs" "\<forall>r \<in> set rs. lo \<le> r \<and> r \<le> hi"
    by auto
  from Cons.prems have "in_range lo hi x" by simp
  then obtain r where r: "x = Fin r" "lo \<le> r" "r \<le> hi"
    by (cases x) simp_all
  show ?case
    by (rule exI [of _ "r # rs"]) (use r rs in simp)
qed

lemma sum_list_bounds:
  fixes rs :: "rat list"
  shows "(\<And>r. r \<in> set rs \<Longrightarrow> lo \<le> r \<and> r \<le> hi) \<Longrightarrow>
     lo * of_nat (length rs) \<le> sum_list rs \<and> sum_list rs \<le> hi * of_nat (length rs)"
proof (induction rs)
  case Nil
  then show ?case by simp
next
  case (Cons r rs)
  then have "lo * of_nat (length rs) \<le> sum_list rs" "sum_list rs \<le> hi * of_nat (length rs)"
    by simp_all
  moreover have "lo \<le> r" "r \<le> hi" using Cons.prems by simp_all
  ultimately show ?case by (simp add: algebra_simps)
qed

lemma mean_bounds:
  fixes rs :: "rat list"
  assumes "rs \<noteq> []" and "\<And>r. r \<in> set rs \<Longrightarrow> lo \<le> r \<and> r \<le> hi"
  shows "lo \<le> sum_list rs / of_nat (length rs) \<and> sum_list rs / of_nat (length rs) \<le> hi"
proof -
  have pos: "(0::rat) < of_nat (length rs)" using assms(1) by simp
  from sum_list_bounds [OF assms(2)]
  have "lo * of_nat (length rs) \<le> sum_list rs" "sum_list rs \<le> hi * of_nat (length rs)"
    by simp_all
  then show ?thesis using pos by (simp add: pos_le_divide_eq pos_divide_le_eq)
qed

lemma overallRiskScore_range:
  assumes "messages \<noteq> []"
  shows "in_range 0 100 (overallRiskScore (analyzeConversation messages))"
proof -
  let ?analyses = "map (\<lambda>(a, b, msg). analyzeMessage a b msg) messages"
  have "\<And>x. x \<in> set (map riskScore ?analyses) \<Longrightarrow> in_range 0 100 x"
    using analyzeMessage_riskScore_range by auto
  then obtain rs where rs: "map riskScore ?analyses = map Fin rs"
      "\<forall>r \<in> set rs. 0 \<le> r \<and> r \<le> 100"
    using in_range_list by blast
  have len: "length rs = length messages"
    using rs(1) by (metis length_map)
  then have ne: "rs \<noteq> []" using assms by auto
  have "overallRiskScore (analyzeConversation messages) =
      js_div (js_sum (map Fin rs)) (Fin (of_nat (length rs)))"
    by (simp add: analyzeConversation_def Let_def rs(1) len del: map_map)
  also have "\<dots> = Fin (sum_list rs / of_nat (length rs))"
    using ne by (simp add: js_sum_Fin)
  finally show ?thesis
    using mean_bounds [OF ne, of 0 100] rs(2) by simp
qed

text \<open>
  C7 (bounds), as the code guarantees them. Every message analysis has a risk score in
  [0, 100] and a sentiment in [-1, 1], whatever the two classifiers reply. The overall risk
  score of a conversation with at least one message is in [0, 100].
\<close>

theorem scores_in_bounds:
  "in_range 0 100 (riskScore (analyzeMessage a b txt)) \<and>
   in_range (- 1) 1 (sentiment (details (analyzeMessage a b txt))) \<and>
   (messages \<noteq> [] \<longrightarrow> in_range 0 100 (overallRiskScore (analyzeConversation messages)))"
  by (simp add: analyzeMessage_riskScore_range analyzeMessage_sentiment_range overallRiskScore_range)

theorem scores_in_bounds_witness:
  "[(Unreachable, NotOk, ''I feel sad''), (Unreachable, NotOk, ''hello'')] \<noteq> [] \<and>
   in_range 0 100 (riskScore (analyzeMessage Unreachable NotOk ''I feel sad'')) \<and>
   in_range (- 1) 1 (sentiment (details (analyzeMessage Unreachable NotOk ''I feel sad''))) \<and>
   in_range 0 100 (overallRiskScore (analyzeConversation
      [(Unreachable, NotOk, ''I feel sad''), (Unreachable, NotOk, ''hello'')]))"
  using scores_in_bounds [of Unreachable NotOk "''I feel sad''"
      "[(Unreachable, NotOk, ''I feel sad''), (Unreachable, NotOk, ''hello'')]"]
  by simp

text \<open>
  For a conversation with no message the overall score is \<^verbatim>\<open>0 / 0\<close>, which is \<^verbatim>\<open>NaN\<close> and
  lies in no interval. (The route's schema asks for at least one message.)
\<close>

theorem overallRiskScore_empty_conversation_counterexample:
  "overallRiskScore (analyzeConversation []) = NaN \<and>
   \<not> in_range 0 100 (overallRiskScore (analyzeConversation []))"
  by (simp add: analyzeConversation_def js_sum_def Let_def)

text \<open>
  C8 (alert). The result of \<^verbatim>\<open>analyzeMessage\<close> requires an alert exactly when its risk level
  is \<open>High\<close> or \<open>Critical\<close>, or its \<open>selfHarm\<close> flag is set.
\<close>

theorem requiresAlert_iff:
  "requiresAlert (analyzeMessage a b txt) =
     (riskLevel (analyzeMessage a b txt) = High \<or>
      riskLevel (analyzeMessage a b txt) = Critical \<or>
      selfHarm (flags (analyzeMessage a b txt)))"
  by (auto simp add: analyzeMessage_def composeResult_def Let_def)

text \<open>
  C9 (suggested actions). The list is the concatenation, in this order, of the three crisis
  actions if \<open>selfHarm\<close> is set, the two violence actions if \<open>violence\<close> is set, the two
  mental-health actions if \<open>mentalHealthConcern\<close> is set, and the two monitoring actions
  if the level is \<open>High\<close> or \<open>Critical\<close>. Each block is there or not on its own, nothing is
  deduplicated, and the length is the sum of the lengths of the blocks that are there.
\<close>

theorem generateSuggestedActions_blocks:
  "generateSuggestedActions fl lvl =
     (if selfHarm fl
      then [''IMMEDIATE: Contact crisis intervention services'',
            ''Notify parent/guardian immediately'',
            ''Provide crisis hotline resources'']
      else []) @
     (if violence fl
      then [''Assess immediate danger to self or others'',
            ''Notify appropriate authorities if threat detected'']
      else []) @
     (if mentalHealthConcern fl
      then [''Consider reaching out to mental health resources'',
            ''Monitor conversation closely'']
      else []) @
     (if lvl = High \<or> lvl = Critical
      then [''Send alert to trusted contacts'', ''Increase monitoring frequency'']
      else []) \<and>
   length (generateSuggestedActions fl lvl) =
     (if selfHarm fl then 3 else 0) + (if violence fl then 2 else 0) +
     (if mentalHealthConcern fl then 2 else 0) + (if lvl = High \<or> lvl = Critical then 2 else 0)"
  by (auto simp add: generateSuggestedActions_def Let_def)

lemma selfHarm_category_critical:
  assumes "criticalFlags m = filter (\<lambda>c. c \<in> set criticalCategories) (mod_categories m)"
    and "''self-harm/intent'' \<in> set (mod_categories m) \<or>
         ''self-harm/instructions'' \<in> set (mod_categories m)"
  shows "criticalFlags m \<noteq> []"
proof -
  from assms(2) obtain c where "c \<in> set (mod_categories m)" "c \<in> set criticalCategories"
    by (auto simp: criticalCategories_def)
  then have "c \<in> set (criticalFlags m)" by (simp add: assms(1))
  then show ?thesis by (rule member_nonempty)
qed

text \<open>
  What classifier B's adapter hands to the analyzer, on success and on failure alike: its
  critical flags are its categories that lie in the critical set.
\<close>

lemma adapter_criticalFlags:
  "criticalFlags (case moderateText b of Inl e \<Rightarrow> openai_default | Inr r \<Rightarrow> r) =
     filter (\<lambda>c. c \<in> set criticalCategories)
       (mod_categories (case moderateText b of Inl e \<Rightarrow> openai_default | Inr r \<Rightarrow> r))"
proof (cases b)
  case (Body data)
  then show ?thesis
    by (cases "results data") (simp_all add: openai_default_def Let_def)
qed (simp_all add: openai_default_def)

text \<open>
  C10 (self-harm implies critical). When classifier B's critical flags are its categories
  that lie in the critical set, a set \<open>selfHarm\<close> flag makes the risk level \<open>Critical\<close>:
  both self-harm categories belong to the critical set. So an alert is required exactly
  when the level is \<open>High\<close> or \<open>Critical\<close>.
\<close>

theorem selfHarm_flag_implies_critical:
  assumes "criticalFlags m = filter (\<lambda>c. c \<in> set criticalCategories) (mod_categories m)"
  shows "(selfHarm (flags (composeResult p m ks s txt)) \<longrightarrow>
            riskLevel (composeResult p m ks s txt) = Critical) \<and>
         requiresAlert (composeResult p m ks s txt) =
           (riskLevel (composeResult p m ks s txt) = High \<or>
            riskLevel (composeResult p m ks s txt) = Critical)"
proof -
  have "selfHarm (flags (composeResult p m ks s txt)) \<Longrightarrow>
      riskLevel (composeResult p m ks s txt) = Critical"
    using selfHarm_category_critical [OF assms]
    by (simp add: composeResult_def Let_def critical_flag_level)
  moreover have "requiresAlert (composeResult p m ks s txt) =
      (riskLevel (composeResult p m ks s txt) = Critical \<or>
       riskLevel (composeResult p m ks s txt) = High \<or>
       selfHarm (flags (composeResult p m ks s txt)))"
    by (simp add: composeResult_def Let_def)
  ultimately show ?thesis by blast
qed

theorem selfHarm_flag_implies_critical_witness:
  "selfHarm (flags (analyzeMessage Unreachable
      (Body \<lparr>results = [\<lparr>result_flagged = True,
          result_categories = [(''self-harm'', True), (''self-harm/instructions'', True)],
          category_scores = [(''self-harm'', 1 / 10), (''self-harm/instructions'', 2 / 10)]\<rparr>]\<rparr>)
      ''hello'')) \<and>
   riskLevel (analyzeMessage Unreachable
      (Body \<lparr>results = [\<lparr>result_flagged = True,
          result_categories = [(''self-harm'', True), (''self-harm/instructions'', True)],
          category_scores = [(''self-harm'', 1 / 10), (''self-harm/instructions'', 2 / 10)]\<rparr>]\<rparr>)
      ''hello'') = Critical \<and>
   requiresAlert (analyzeMessage Unreachable
      (Body \<lparr>results = [\<lparr>result_flagged = True,
          result_categories = [(''self-harm'', True), (''self-harm/instructions'', True)],
          category_scores = [(''self-harm'', 1 / 10), (''self-harm/instructions'', 2 / 10)]\<rparr>]\<rparr>)
      ''hello'')"
proof -
  let ?m = "\<lparr>flagged = True,
      mod_categories = [''self-harm'', ''self-harm/instructions''],
      scores = [(''self-harm'', Fin (1 / 10)), (''self-harm/instructions'', Fin (2 / 10))],
      criticalFlags = [''self-harm/instructions''],
      mod_riskLevel = Critical\<rparr>"
  let ?r = "composeResult perspective_default ?m (detectKeywords ''hello'')
      (analyzeSentiment ''hello'') ''hello''"
  have eq: "analyzeMessage Unreachable
      (Body \<lparr>results = [\<lparr>result_flagged = True,
          result_categories = [(''self-harm'', True), (''self-harm/instructions'', True)],
          category_scores = [(''self-harm'', 1 / 10), (''self-harm/instructions'', 2 / 10)]\<rparr>]\<rparr>)
      ''hello'' = ?r"
    by (simp add: analyzeMessage_def criticalCategories_def calculateRiskLevel_def Let_def)
  have contract: "criticalFlags ?m =
      filter (\<lambda>c. c \<in> set criticalCategories) (mod_categories ?m)"
    by (simp add: criticalCategories_def)
  have flag: "selfHarm (flags ?r)"
    by (simp add: composeResult_def Let_def)
  from selfHarm_flag_implies_critical [OF contract, of perspective_default
      "detectKeywords ''hello''" "analyzeSentiment ''hello''" "''hello''"] flag
  have "riskLevel ?r = Critical \<and> requiresAlert ?r" by simp
  with flag show ?thesis unfolding eq by simp
qed

end
